theory Spec2Isabelle
  imports Main "HOL-Library.Word" "HOL-Library.Sublist"
begin

section \<open>Python values used by treetagger.py\<close>

text \<open>
  A Python 3 \<open>str\<close> is a sequence of Unicode code points, so it is modelled as a list of
  natural numbers (every code point of a real \<open>str\<close> is below \<open>0x110000\<close>). A \<open>bytes\<close>
  object is a list of 8-bit words. ASCII literals of the source are written with \<open>py\<close>.
\<close>

type_synonym pystr = "nat list"
type_synonym byte = "8 word"

definition py :: "string \<Rightarrow> pystr" where
  "py s = map of_char s"

abbreviation TAB :: nat where "TAB \<equiv> 9"
abbreviation LF :: nat where "LF \<equiv> 10"
abbreviation CR :: nat where "CR \<equiv> 13"

text \<open>
  The exceptions the module can raise or meet. \<open>LookupError\<close> stands for the class with its
  subclasses (what \<open>except LookupError\<close> catches); \<open>OSError\<close> likewise (a failing \<open>Popen\<close>
  raises one of its subclasses). \<open>AttributeError\<close> carries the name of the missing
  attribute, the others their message.
\<close>

datatype pyerr =
    LookupError pystr
  | OSError pystr
  | AttributeError pystr
  | UnicodeEncodeError
  | OtherError pystr

definition error_message :: "pyerr \<Rightarrow> pystr" where
  "error_message e =
     (case e of LookupError m \<Rightarrow> m | OSError m \<Rightarrow> m | AttributeError m \<Rightarrow> m
      | UnicodeEncodeError \<Rightarrow> [] | OtherError m \<Rightarrow> m)"

text \<open>What \<open>print\<close> was given: a \<open>str\<close> or a \<open>bytes\<close> object.\<close>

datatype pyobj = PStr pystr | PBytes "byte list"

subsection \<open>\<open>str.join\<close>, \<open>str.strip\<close>, \<open>str.split\<close>\<close>

text \<open>\<open>sep.join(xs)\<close>: the elements of \<open>xs\<close> with \<open>sep\<close> between neighbours.\<close>

fun str_join :: "pystr \<Rightarrow> pystr list \<Rightarrow> pystr" where
  "str_join sep [] = []"
| "str_join sep [x] = x"
| "str_join sep (x # y # ys) = x @ sep @ str_join sep (y # ys)"

text \<open>
  \<open>str.isspace\<close> on one code point, as CPython's \<open>_PyUnicode_IsWhitespace\<close> lists them:
  U+0009..U+000D, U+001C..U+0020, U+0085, U+00A0, U+1680, U+2000..U+200A, U+2028, U+2029,
  U+202F, U+205F, U+3000.
\<close>

definition isspace :: "nat \<Rightarrow> bool" where
  "isspace c \<longleftrightarrow>
     (0x09 \<le> c \<and> c \<le> 0x0D) \<or> (0x1C \<le> c \<and> c \<le> 0x20) \<or> c = 0x85 \<or> c = 0xA0 \<or>
     c = 0x1680 \<or> (0x2000 \<le> c \<and> c \<le> 0x200A) \<or> c = 0x2028 \<or> c = 0x2029 \<or>
     c = 0x202F \<or> c = 0x205F \<or> c = 0x3000"

text \<open>\<open>s.strip()\<close>: leading whitespace removed, then trailing whitespace.\<close>

definition lstrip :: "pystr \<Rightarrow> pystr" where
  "lstrip s = dropWhile isspace s"

definition rstrip :: "pystr \<Rightarrow> pystr" where
  "rstrip s = rev (dropWhile isspace (rev s))"

definition strip :: "pystr \<Rightarrow> pystr" where
  "strip s = rstrip (lstrip s)"

text \<open>
  \<open>s.split(sep)\<close> for a one-character separator: scan left to right, closing the current
  field at every separator; the rest after the last separator is the last field. The
  accumulator \<open>cur\<close> holds the current field reversed.
\<close>

fun split_from :: "nat \<Rightarrow> pystr \<Rightarrow> pystr \<Rightarrow> pystr list" where
  "split_from sep cur [] = [rev cur]"
| "split_from sep cur (c # cs) =
     (if c = sep then rev cur # split_from sep [] cs else split_from sep (c # cur) cs)"

definition split :: "nat \<Rightarrow> pystr \<Rightarrow> pystr list" where
  "split sep s = split_from sep [] s"

subsection \<open>\<open>str.encode('utf-8')\<close>\<close>

definition utf8_char :: "nat \<Rightarrow> byte list" where
  "utf8_char c =
     (if c < 0x80 then [of_nat c]
      else if c < 0x800 then [of_nat (0xC0 + c div 0x40), of_nat (0x80 + c mod 0x40)]
      else if c < 0x10000 then
        [of_nat (0xE0 + c div 0x1000), of_nat (0x80 + (c div 0x40) mod 0x40),
         of_nat (0x80 + c mod 0x40)]
      else
        [of_nat (0xF0 + c div 0x40000), of_nat (0x80 + (c div 0x1000) mod 0x40),
         of_nat (0x80 + (c div 0x40) mod 0x40), of_nat (0x80 + c mod 0x40)])"

text \<open>A lone surrogate (U+D800..U+DFFF) cannot be encoded: \<open>UnicodeEncodeError\<close>.\<close>

fun encode_utf8 :: "pystr \<Rightarrow> pyerr + byte list" where
  "encode_utf8 [] = Inr []"
| "encode_utf8 (c # cs) =
     (if 0xD800 \<le> c \<and> c \<le> 0xDFFF then Inl UnicodeEncodeError
      else (case encode_utf8 cs of
              Inl e \<Rightarrow> Inl e
            | Inr bs \<Rightarrow> Inr (utf8_char c @ bs)))"

subsection \<open>Iterating over a text file\<close>

text \<open>
  \<open>tempfile.TemporaryFile(mode="w+", encoding="utf8")\<close> is a text file with the default
  \<open>newline=None\<close>: on reading, \<open>\r\n\<close> and a lone \<open>\r\<close> are translated to \<open>\n\<close>, and
  \<open>for line in f\<close> gives the translated text cut after every \<open>\n\<close>, each line keeping its
  terminator; text after the last \<open>\n\<close> is a last line without one.
\<close>

fun translate_newlines :: "pystr \<Rightarrow> pystr" where
  "translate_newlines [] = []"
| "translate_newlines [c] = [if c = CR then LF else c]"
| "translate_newlines (c # d # ds) =
     (if c = CR \<and> d = LF then LF # translate_newlines ds
      else if c = CR then LF # translate_newlines (d # ds)
      else c # translate_newlines (d # ds))"

fun lines_from :: "pystr \<Rightarrow> pystr \<Rightarrow> pystr list" where
  "lines_from cur [] = (if cur = [] then [] else [rev cur])"
| "lines_from cur (c # cs) =
     (if c = LF then rev (c # cur) # lines_from [] cs else lines_from (c # cur) cs)"

definition file_lines :: "pystr \<Rightarrow> pystr list" where
  "file_lines txt = lines_from [] (translate_newlines txt)"

section \<open>The module\<close>

subsection \<open>Construction: \<open>TreeTagger.__init__\<close>\<close>

definition treetagger_url :: pystr where
  "treetagger_url = py ''http://www.cis.uni-muenchen.de/~schmid/tools/TreeTagger/''"

definition treetagger_languages :: "pystr list" where
  "treetagger_languages =
     map py [''bulgarian'', ''dutch'', ''english'', ''estonian'', ''finnish'', ''french'',
       ''galician'', ''german'', ''italian'', ''polish'', ''portuguese'',
       ''portuguese-finegrained'', ''russian'', ''slovak'', ''slovak2'', ''spanish'']"

text \<open>
  What the constructor takes from outside the module: \<open>sys.platform\<close>,
  \<open>os.path.expanduser\<close> and NLTK's \<open>find_binary(name, path_to_bin, env_vars, searchpath,
  url, verbose)\<close>, which returns a path or raises.
\<close>

record sysenv =
  platform :: pystr
  expanduser :: "pystr \<Rightarrow> pystr"
  find_binary ::
    "pystr \<Rightarrow> pystr option \<Rightarrow> pystr list \<Rightarrow> pystr list \<Rightarrow> pystr \<Rightarrow> bool \<Rightarrow> pyerr + pystr"

text \<open>
  The attributes of an instance. \<open>abbr_list\<close> is always assigned (\<open>None\<close> is Python's
  \<open>None\<close>); \<open>treetagger_bin = None\<close> says that the attribute \<open>_treetagger_bin\<close> was never
  assigned.
\<close>

record tagger =
  abbr_list :: "pystr option"
  treetagger_bin :: "pystr option"

text \<open>Lines 80-83: the search path, and lines 87-90: the name of the binary.\<close>

definition treetagger_paths :: "sysenv \<Rightarrow> pystr list" where
  "treetagger_paths env =
     map (expanduser env)
       (map py [''.'', ''/usr/bin'', ''/usr/local/bin'', ''/opt/local/bin'',
          ''/Applications/bin'', ''~/bin'', ''~/Applications/bin'',
          ''~/work/tmp/treetagger/cmd'', ''~/tree-tagger/cmd''])"

definition treetagger_bin_name :: "sysenv \<Rightarrow> pystr \<Rightarrow> pystr" where
  "treetagger_bin_name env language =
     (if platform env = py ''win32'' then py ''tag-'' @ language
      else py ''tree-tagger-'' @ language)"

text \<open>Lines 95-100: the call of \<open>find_binary\<close>.\<close>

definition locate :: "sysenv \<Rightarrow> pystr option \<Rightarrow> pystr \<Rightarrow> bool \<Rightarrow> pyerr + pystr" where
  "locate env path_to_home language verbose =
     find_binary env (treetagger_bin_name env language) path_to_home
       [py ''TREETAGGER'', py ''TREETAGGER_HOME''] (treetagger_paths env)
       treetagger_url verbose"

text \<open>
  \<open>init\<close> returns what was printed and either the exception that left the constructor
  or the instance. The language is checked before the binary is looked for; of the
  exceptions of \<open>find_binary\<close> only \<open>LookupError\<close> is caught.
\<close>

definition init ::
  "sysenv \<Rightarrow> pystr option \<Rightarrow> pystr \<Rightarrow> bool \<Rightarrow> pystr option \<Rightarrow> pyobj list \<times> (pyerr + tagger)"
where
  "init env path_to_home language verbose abbreviation_list =
     (if language \<in> set treetagger_languages then
        (case locate env path_to_home language verbose of
           Inr bin \<Rightarrow>
             ([], Inr \<lparr>abbr_list = abbreviation_list, treetagger_bin = Some bin\<rparr>)
         | Inl (LookupError m) \<Rightarrow>
             ([PStr (py ''NLTK was unable to find the TreeTagger bin!'')],
              Inr \<lparr>abbr_list = abbreviation_list, treetagger_bin = None\<rparr>)
         | Inl e \<Rightarrow> ([], Inl e))
      else ([], Inl (LookupError (py ''Language not in language list!''))))"

subsection \<open>Tagging: \<open>TreeTagger.tag\<close>\<close>

text \<open>
  The argument of \<open>tag\<close>: a list of tokens, a string, or an object with a \<open>read\<close>
  attribute. A readable object is an open stream, named by a handle; \<open>streams\<close> gives the
  bytes each open stream still has to deliver.
\<close>

datatype tag_input = TokenList "pystr list" | RawText pystr | Readable nat

type_synonym streams = "nat \<Rightarrow> byte list"

text \<open>The local \<open>_input\<close> after lines 110-113: a string, or the readable object.\<close>

datatype payload = Text pystr | Stream nat

definition normalize_input :: "tag_input \<Rightarrow> payload" where
  "normalize_input sentences =
     (case sentences of
        TokenList xs \<Rightarrow> Text (str_join [LF] xs)
      | RawText s \<Rightarrow> Text s
      | Readable h \<Rightarrow> Stream h)"

text \<open>
  The external process. \<open>Popen(argv, ...)\<close> raises or starts a process; a started process
  is a function of the bytes on its standard input and ends with an exit status, the text
  it wrote to the output file (the file is read back as UTF-8 text; the tool's output is
  taken to be valid UTF-8, as its output contract says), the bytes it wrote to standard
  error, and the number of bytes it took from its standard input. The last matters when
  standard input is the caller's stream: the process reads from the stream itself, so
  what it has read is gone from the stream afterwards.
\<close>

record completed =
  returncode :: int
  stdout_text :: pystr
  stderr_bytes :: "byte list"
  consumed :: nat

type_synonym process = "byte list \<Rightarrow> completed"
type_synonym popen = "pystr list \<Rightarrow> pyerr + process"

text \<open>
  \<open>tag\<close> is a generator: nothing of its body runs before the caller asks for the first
  record. \<open>tag_result\<close> is what a caller that iterates to the end observes, in
  order: the argument vectors given to \<open>Popen\<close>, the byte strings given to
  \<open>communicate\<close>, the objects printed, the records yielded, and the exception that ended
  the iteration (\<open>None\<close>: exhausted normally).
\<close>

record tag_result =
  spawned :: "pystr list list"
  sent :: "byte list list"
  printed :: "pyobj list"
  yielded :: "pystr list list"
  raised :: "pyerr option"

text \<open>
  Lines 121-126: the argument vector given to \<open>Popen\<close>, the executable alone or with
  \<open>-a\<close> and the abbreviation list.
\<close>

definition popen_args :: "tagger \<Rightarrow> pystr \<Rightarrow> pystr list" where
  "popen_args self bin =
     (case abbr_list self of
        None \<Rightarrow> [bin]
      | Some a \<Rightarrow> [bin, py ''-a'', a])"

text \<open>
  Lines 129-132: with a readable \<open>_input\<close> the process reads the stream itself and
  \<open>communicate()\<close> sends nothing; otherwise \<open>str(_input).encode('utf-8')\<close> is sent.
  The result is the list of byte strings sent, the completed process and the streams
  afterwards.
\<close>

definition communicate ::
  "process \<Rightarrow> payload \<Rightarrow> streams \<Rightarrow> pyerr + (byte list list \<times> completed \<times> streams)"
where
  "communicate p input fds =
     (case input of
        Stream h \<Rightarrow>
          (let r = p (fds h) in Inr ([], r, fds(h := drop (consumed r) (fds h))))
      | Text s \<Rightarrow>
          (case encode_utf8 s of
             Inl e \<Rightarrow> Inl e
           | Inr b \<Rightarrow> Inr ([b], p b, fds)))"

definition tag :: "tagger \<Rightarrow> popen \<Rightarrow> tag_input \<Rightarrow> streams \<Rightarrow> tag_result \<times> streams" where
  "tag self popen sentences fds =
     (let input = normalize_input sentences in
      case treetagger_bin self of
        None \<Rightarrow>
          (\<lparr>spawned = [], sent = [], printed = [], yielded = [],
            raised = Some (AttributeError (py ''_treetagger_bin''))\<rparr>, fds)
      | Some bin \<Rightarrow>
          (case popen (popen_args self bin) of
             Inl e \<Rightarrow>
               (\<lparr>spawned = [popen_args self bin], sent = [], printed = [], yielded = [],
                 raised = Some e\<rparr>, fds)
           | Inr p \<Rightarrow>
               (case communicate p input fds of
                  Inl e \<Rightarrow>
                    (\<lparr>spawned = [popen_args self bin], sent = [], printed = [],
                      yielded = [], raised = Some e\<rparr>, fds)
                | Inr (bs, r, fds') \<Rightarrow>
                    if returncode r \<noteq> 0 then
                      (\<lparr>spawned = [popen_args self bin], sent = bs,
                        printed = [PBytes (stderr_bytes r)], yielded = [],
                        raised = Some (OSError (py ''TreeTagger command failed!''))\<rparr>, fds')
                    else
                      (\<lparr>spawned = [popen_args self bin], sent = bs, printed = [],
                        yielded = map (\<lambda>tagged_line. split TAB (strip tagged_line))
                                    (file_lines (stdout_text r)),
                        raised = None\<rparr>, fds'))))"

text \<open>\<open>TreeTagger.languages()\<close>.\<close>

definition languages :: "pystr list" where
  "languages = treetagger_languages"

section \<open>The specification's notions\<close>

text \<open>
  The definitions of this section follow the words of the specification, not the code;
  the theorems below compare them with the functions of the module.
\<close>

text \<open>A line without its trailing line terminator.\<close>

definition chop_terminator :: "pystr \<Rightarrow> pystr" where
  "chop_terminator l = (if l \<noteq> [] \<and> last l = LF then butlast l else l)"

text \<open>Trimming surrounding whitespace: from the left, and the same from the right.\<close>

fun trim_left :: "pystr \<Rightarrow> pystr" where
  "trim_left [] = []"
| "trim_left (c # cs) = (if isspace c then trim_left cs else c # cs)"

definition trim :: "pystr \<Rightarrow> pystr" where
  "trim s = rev (trim_left (rev (trim_left s)))"

text \<open>
  The fields of a text separated by \<open>sep\<close>: a separator starts a new field, any other
  character belongs to the field it stands in.
\<close>

fun fields_of :: "nat \<Rightarrow> pystr \<Rightarrow> pystr list" where
  "fields_of sep [] = [[]]"
| "fields_of sep (c # cs) =
     (if c = sep then [] # fields_of sep cs
      else (case fields_of sep cs of f # fs \<Rightarrow> (c # f) # fs | [] \<Rightarrow> [[c]]))"

text \<open>
  The field sequence of an output line: the line without its terminator and without
  surrounding whitespace, split on the tab character.
\<close>

definition spec_fields :: "pystr \<Rightarrow> pystr list" where
  "spec_fields l = fields_of TAB (trim (chop_terminator l))"

text \<open>
  The number of lines of a text: each terminator (\<open>\r\n\<close>, \<open>\r\<close> or \<open>\n\<close>) ends one line,
  blank or not, and text after the last terminator is one more line.
\<close>

fun line_count :: "pystr \<Rightarrow> nat" where
  "line_count [] = 0"
| "line_count [c] = 1"
| "line_count (c # d # ds) =
     (if c = CR \<and> d = LF then 1 + line_count ds
      else if c = CR \<or> c = LF then 1 + line_count (d # ds)
      else line_count (d # ds))"

text \<open>The number of non-empty lines: those with something before the terminator.\<close>

definition nonempty_line_count :: "pystr \<Rightarrow> nat" where
  "nonempty_line_count t =
     length (filter (\<lambda>l. chop_terminator l \<noteq> []) (file_lines t))"

text \<open>
  An error carries the standard-error content verbatim: the bytes, read as code points,
  stand in the error's message.
\<close>

definition carries_stderr :: "pyerr \<Rightarrow> byte list \<Rightarrow> bool" where
  "carries_stderr e err \<longleftrightarrow> sublist (map unat err) (error_message e)"

section \<open>Example runs\<close>

definition ex_tagger :: tagger where
  "ex_tagger = \<lparr>abbr_list = None, treetagger_bin = Some (py ''tree-tagger-english'')\<rparr>"

definition no_streams :: streams where
  "no_streams h = []"

text \<open>A process that writes \<open>boom\<close> to standard error and exits with status 1.\<close>

definition boom_process :: process where
  "boom_process stdin =
     \<lparr>returncode = 1, stdout_text = [], stderr_bytes = map of_char ''boom'',
      consumed = length stdin\<rparr>"

definition boom_popen :: popen where
  "boom_popen argv = Inr boom_process"

text \<open>A process that exits with status 0 and writes three lines, the second one blank.\<close>

definition blank_process :: process where
  "blank_process stdin =
     \<lparr>returncode = 0,
      stdout_text = py ''What'' @ [TAB] @ py ''WP'' @ [TAB] @ py ''What'' @ [LF] @ [LF]
                    @ py ''is'' @ [TAB] @ py ''VBZ'' @ [LF],
      stderr_bytes = [], consumed = length stdin\<rparr>"

definition blank_popen :: popen where
  "blank_popen argv = Inr blank_process"

text \<open>
  A process that reads all of its standard input and writes one tagged line if there was
  any input, nothing otherwise; and a stream, with handle 0, that holds \<open>x\n\<close>.
\<close>

definition once_process :: process where
  "once_process stdin =
     \<lparr>returncode = 0,
      stdout_text = (if stdin = [] then []
                     else py ''x'' @ [TAB] @ py ''NN'' @ [TAB] @ py ''x'' @ [LF]),
      stderr_bytes = [], consumed = length stdin\<rparr>"

definition once_popen :: popen where
  "once_popen argv = Inr once_process"

definition one_stream :: streams where
  "one_stream h = (if h = 0 then [120, 10] else [])"

text \<open>Two environments: one where the binary is not found, one where it is.\<close>

definition env_missing :: sysenv where
  "env_missing =
     \<lparr>platform = py ''linux'', expanduser = (\<lambda>p. p),
      find_binary = (\<lambda>name path_to_bin env_vars searchpath url verbose.
                       Inl (LookupError (py ''not found'')))\<rparr>"

definition env_found :: sysenv where
  "env_found =
     \<lparr>platform = py ''linux'', expanduser = (\<lambda>p. p),
      find_binary = (\<lambda>name path_to_bin env_vars searchpath url verbose.
                       Inr (py ''/usr/bin/'' @ name))\<rparr>"

section \<open>Facts about the string operations\<close>

lemma trim_left_dropWhile: "trim_left s = dropWhile isspace s"
  by (induction s) auto

lemma isspace_LF: "isspace LF"
  by (simp add: isspace_def)

lemma strip_snoc_space: "isspace c \<Longrightarrow> strip (s @ [c]) = strip s"
proof (cases "\<forall>x\<in>set s. isspace x")
  case True
  assume "isspace c"
  with True have a: "dropWhile isspace (s @ [c]) = []" and b: "dropWhile isspace s = []"
    by simp_all
  show ?thesis unfolding strip_def lstrip_def rstrip_def a b by (rule refl)
next
  case False
  assume c: "isspace c"
  from False obtain x where "x \<in> set s" and "\<not> isspace x" by blast
  then have "dropWhile isspace (s @ [c]) = dropWhile isspace s @ [c]"
    by (simp add: dropWhile_append1)
  with c show ?thesis by (simp add: strip_def lstrip_def rstrip_def)
qed

lemma trim_chop: "trim (chop_terminator l) = strip l"
proof (cases "l \<noteq> [] \<and> last l = LF")
  case True
  then have "l = butlast l @ [LF]" by (metis append_butlast_last_id)
  then have "strip l = strip (butlast l)"
    using strip_snoc_space [OF isspace_LF, of "butlast l"] by simp
  with True show ?thesis
    by (simp add: chop_terminator_def trim_def trim_left_dropWhile strip_def lstrip_def rstrip_def)
next
  case False
  then show ?thesis
    by (auto simp add: chop_terminator_def trim_def trim_left_dropWhile strip_def lstrip_def rstrip_def)
qed

lemma fields_of_nonempty: "fields_of sep s \<noteq> []"
  by (induction s) (auto split: list.splits)

lemma split_from_fields:
  "split_from sep cur s = (rev cur @ hd (fields_of sep s)) # tl (fields_of sep s)"
proof (induction s arbitrary: cur)
  case Nil
  then show ?case by simp
next
  case (Cons c cs)
  show ?case
  proof (cases "c = sep")
    case True
    then show ?thesis by (simp add: Cons.IH [of "[]"] fields_of_nonempty)
  next
    case False
    obtain f fs where ffs: "fields_of sep cs = f # fs"
      using fields_of_nonempty [of sep cs] by (cases "fields_of sep cs") auto
    from False show ?thesis by (simp add: Cons.IH [of "c # cur"] ffs)
  qed
qed

lemma split_fields: "split sep s = fields_of sep s"
  using fields_of_nonempty [of sep s] by (simp add: split_def split_from_fields)

lemma length_fields_of: "length (fields_of sep s) = Suc (count_list s sep)"
  by (induction s) (auto split: list.splits simp: fields_of_nonempty)

lemma decode_line_spec: "split TAB (strip l) = spec_fields l"
  by (simp add: spec_fields_def trim_chop split_fields)

lemma length_lines_from:
  "t \<noteq> [] \<Longrightarrow> length (lines_from cur (translate_newlines t)) = line_count t"
proof (induction t arbitrary: cur rule: translate_newlines.induct)
  case 1
  then show ?case by simp
next
  case (2 c)
  then show ?case by simp
next
  case (3 c d ds)
  show ?case
  proof (cases "c = CR \<and> d = LF")
    case True
    then show ?thesis using "3.IH"(1) [of "[]"] by (cases "ds = []") simp_all
  next
    case False
    then show ?thesis using "3.IH"(2) [of "[]"] "3.IH"(3) [of "c # cur"] "3.IH"(3) [of "[]"] by auto
  qed
qed

lemma length_file_lines: "length (file_lines t) = line_count t"
  using length_lines_from [of t "[]"] by (cases "t = []") (simp_all add: file_lines_def)

section \<open>The tagging pipeline\<close>

text \<open>
  In all theorems about a call that runs a process, the first three hypotheses say that
  the instance has its binary \<open>bin\<close>, that \<open>Popen\<close> started the process \<open>p\<close>, and that
  \<open>communicate\<close> returned the completed process \<open>r\<close>.
\<close>

lemma tag_success_yielded:
  assumes "treetagger_bin self = Some bin"
    and "popen (popen_args self bin) = Inr p"
    and "communicate p (normalize_input sentences) fds = Inr (bs, r, fds')"
    and "returncode r = 0"
  shows "yielded (fst (tag self popen sentences fds)) =
         map (\<lambda>l. split TAB (strip l)) (file_lines (stdout_text r))"
  using assms by (simp add: tag_def)

text \<open>
  C1: when the external process exits with a non-zero status, the call raises an error
  and no record has been yielded before it: the iteration ends with an exception and its
  list of yielded records is empty.
\<close>

theorem tag_failure_no_records:
  assumes "treetagger_bin self = Some bin"
    and "popen (popen_args self bin) = Inr p"
    and "communicate p (normalize_input sentences) fds = Inr (bs, r, fds')"
    and "returncode r \<noteq> 0"
  shows "yielded (fst (tag self popen sentences fds)) = []
       \<and> raised (fst (tag self popen sentences fds)) \<noteq> None"
  using assms by (simp add: tag_def)

theorem tag_failure_no_records_witness:
  "treetagger_bin ex_tagger = Some (py ''tree-tagger-english'')
   \<and> boom_popen (popen_args ex_tagger (py ''tree-tagger-english'')) = Inr boom_process
   \<and> communicate boom_process (normalize_input (TokenList [py ''x''])) no_streams
       = Inr ([[120]], boom_process [120], no_streams)
   \<and> returncode (boom_process [120]) \<noteq> 0
   \<and> yielded (fst (tag ex_tagger boom_popen (TokenList [py ''x'']) no_streams)) = []
   \<and> raised (fst (tag ex_tagger boom_popen (TokenList [py ''x'']) no_streams)) \<noteq> None"
proof -
  have h1: "treetagger_bin ex_tagger = Some (py ''tree-tagger-english'')"
    by (simp add: ex_tagger_def)
  have h2: "boom_popen (popen_args ex_tagger (py ''tree-tagger-english'')) = Inr boom_process"
    by (simp add: boom_popen_def)
  have h3: "communicate boom_process (normalize_input (TokenList [py ''x''])) no_streams
       = Inr ([[120]], boom_process [120], no_streams)"
    by (simp add: communicate_def normalize_input_def py_def utf8_char_def)
  have h4: "returncode (boom_process [120]) \<noteq> 0"
    by (simp add: boom_process_def)
  from tag_failure_no_records [of ex_tagger _ boom_popen, OF h1 h2 h3 h4] h1 h2 h3 h4
  show ?thesis by simp
qed

text \<open>
  C2, as stated: the error raised after a non-zero exit carries the captured
  standard-error content. It does not: for the process that writes \<open>boom\<close> and exits
  with status 1, \<open>tag(["x"])\<close> raises \<open>OSError('TreeTagger command failed!')\<close>, and
  \<open>boom\<close> does not stand in that message.
\<close>

theorem tag_error_carries_stderr_counterexample:
  "sent (fst (tag ex_tagger boom_popen (TokenList [py ''x'']) no_streams)) = [[120]]
   \<and> returncode (boom_process [120]) = 1
   \<and> stderr_bytes (boom_process [120]) = map of_char ''boom''
   \<and> raised (fst (tag ex_tagger boom_popen (TokenList [py ''x'']) no_streams))
       = Some (OSError (py ''TreeTagger command failed!''))
   \<and> \<not> carries_stderr (OSError (py ''TreeTagger command failed!'')) (map of_char ''boom'')"
proof -
  have "\<not> sublist (map unat (map of_char ''boom'' :: byte list))
            (py ''TreeTagger command failed!'')"
  proof
    assume "sublist (map unat (map of_char ''boom'' :: byte list))
              (py ''TreeTagger command failed!'')"
    then have "set (map unat (map of_char ''boom'' :: byte list))
                 \<subseteq> set (py ''TreeTagger command failed!'')"
      by (rule set_mono_sublist)
    then show False by (simp add: py_def)
  qed
  then show ?thesis
    by (simp add: tag_def ex_tagger_def no_streams_def boom_process_def boom_popen_def
          py_def popen_args_def communicate_def normalize_input_def utf8_char_def
          carries_stderr_def error_message_def)
qed

text \<open>
  C2, amended: after a non-zero exit the error raised is \<open>OSError\<close> with the fixed
  message \<open>TreeTagger command failed!\<close>, whatever the process wrote to standard error;
  the captured standard-error bytes are given to \<open>print\<close> before the error is raised.
\<close>

theorem tag_failure_error_fixed:
  assumes "treetagger_bin self = Some bin"
    and "popen (popen_args self bin) = Inr p"
    and "communicate p (normalize_input sentences) fds = Inr (bs, r, fds')"
    and "returncode r \<noteq> 0"
  shows "raised (fst (tag self popen sentences fds))
           = Some (OSError (py ''TreeTagger command failed!''))
       \<and> printed (fst (tag self popen sentences fds)) = [PBytes (stderr_bytes r)]"
  using assms by (simp add: tag_def)

theorem tag_failure_error_fixed_witness:
  "treetagger_bin ex_tagger = Some (py ''tree-tagger-english'')
   \<and> boom_popen (popen_args ex_tagger (py ''tree-tagger-english'')) = Inr boom_process
   \<and> communicate boom_process (normalize_input (RawText (py ''x''))) no_streams
       = Inr ([[120]], boom_process [120], no_streams)
   \<and> returncode (boom_process [120]) \<noteq> 0
   \<and> raised (fst (tag ex_tagger boom_popen (RawText (py ''x'')) no_streams))
       = Some (OSError (py ''TreeTagger command failed!''))
   \<and> printed (fst (tag ex_tagger boom_popen (RawText (py ''x'')) no_streams))
       = [PBytes (map of_char ''boom'')]"
proof -
  have h1: "treetagger_bin ex_tagger = Some (py ''tree-tagger-english'')"
    by (simp add: ex_tagger_def)
  have h2: "boom_popen (popen_args ex_tagger (py ''tree-tagger-english'')) = Inr boom_process"
    by (simp add: boom_popen_def)
  have h3: "communicate boom_process (normalize_input (RawText (py ''x''))) no_streams
       = Inr ([[120]], boom_process [120], no_streams)"
    by (simp add: communicate_def normalize_input_def py_def utf8_char_def)
  have h4: "returncode (boom_process [120]) \<noteq> 0"
    by (simp add: boom_process_def)
  have h5: "stderr_bytes (boom_process [120]) = map of_char ''boom''"
    by (simp add: boom_process_def)
  from tag_failure_error_fixed [of ex_tagger _ boom_popen, OF h1 h2 h3 h4] h1 h2 h3 h4 h5
  show ?thesis by simp
qed

text \<open>
  C3, as stated: after a successful call the number of records equals the number of
  non-empty output lines. It does not: for an output of three lines, the second one
  blank, three records are yielded and two lines are non-empty.
\<close>

theorem tag_record_count_counterexample:
  "sent (fst (tag ex_tagger blank_popen (TokenList [py ''What'', py ''is'']) no_streams))
     = [map of_char ''What'' @ [10] @ map of_char ''is'']
   \<and> returncode (blank_process (map of_char ''What'' @ [10] @ map of_char ''is'')) = 0
   \<and> raised (fst (tag ex_tagger blank_popen (TokenList [py ''What'', py ''is''])
         no_streams)) = None
   \<and> length (yielded (fst (tag ex_tagger blank_popen (TokenList [py ''What'', py ''is''])
         no_streams))) = 3
   \<and> nonempty_line_count
         (stdout_text (blank_process (map of_char ''What'' @ [10] @ map of_char ''is''))) = 2"
  by (simp add: tag_def ex_tagger_def no_streams_def blank_process_def blank_popen_def
        py_def popen_args_def communicate_def normalize_input_def utf8_char_def
        nonempty_line_count_def file_lines_def chop_terminator_def)

text \<open>
  C3, amended: after a successful call the number of records equals the number of lines
  of the output, blank lines included, where \<open>\r\n\<close>, \<open>\r\<close> and \<open>\n\<close> each end a line.
\<close>

theorem tag_record_count:
  assumes "treetagger_bin self = Some bin"
    and "popen (popen_args self bin) = Inr p"
    and "communicate p (normalize_input sentences) fds = Inr (bs, r, fds')"
    and "returncode r = 0"
  shows "length (yielded (fst (tag self popen sentences fds))) = line_count (stdout_text r)"
  using tag_success_yielded [of self _ popen, OF assms] by (simp add: length_file_lines)

theorem tag_record_count_witness:
  "treetagger_bin ex_tagger = Some (py ''tree-tagger-english'')
   \<and> blank_popen (popen_args ex_tagger (py ''tree-tagger-english'')) = Inr blank_process
   \<and> communicate blank_process (normalize_input (RawText (py ''x''))) no_streams
       = Inr ([[120]], blank_process [120], no_streams)
   \<and> returncode (blank_process [120]) = 0
   \<and> length (yielded (fst (tag ex_tagger blank_popen (RawText (py ''x'')) no_streams))) = 3"
proof -
  have h1: "treetagger_bin ex_tagger = Some (py ''tree-tagger-english'')"
    by (simp add: ex_tagger_def)
  have h2: "blank_popen (popen_args ex_tagger (py ''tree-tagger-english'')) = Inr blank_process"
    by (simp add: blank_popen_def)
  have h3: "communicate blank_process (normalize_input (RawText (py ''x''))) no_streams
       = Inr ([[120]], blank_process [120], no_streams)"
    by (simp add: communicate_def normalize_input_def py_def utf8_char_def)
  have h4: "returncode (blank_process [120]) = 0"
    by (simp add: blank_process_def)
  have h5: "line_count (stdout_text (blank_process [120])) = 3"
    by (simp add: blank_process_def py_def)
  from tag_record_count [of ex_tagger _ blank_popen, OF h1 h2 h3 h4] h1 h2 h3 h4 h5
  show ?thesis by simp
qed

text \<open>
  C4: a token list and the string of its tokens joined with \<open>\n\<close> normalize to the
  same payload, so that \<open>tag\<close> on the one and on the other sends the same bytes to the
  same process and yields the same records (the whole observation is the same). This
  holds for every list, with or without line breaks inside the tokens.
\<close>

theorem tag_list_same_as_joined:
  "normalize_input (TokenList L) = normalize_input (RawText (str_join [LF] L))
   \<and> tag self popen (TokenList L) fds = tag self popen (RawText (str_join [LF] L)) fds"
  by (simp add: tag_def normalize_input_def)

text \<open>
  C5: after a successful call the records are, line by line, the field sequences of the
  output lines: the line without its terminator and surrounding whitespace, split on the
  tab character. The number of fields is whatever the line holds, one more than the
  number of tabs left after trimming; three is not assumed.
\<close>

theorem tag_yields_fields:
  assumes "treetagger_bin self = Some bin"
    and "popen (popen_args self bin) = Inr p"
    and "communicate p (normalize_input sentences) fds = Inr (bs, r, fds')"
    and "returncode r = 0"
  shows "yielded (fst (tag self popen sentences fds))
           = map spec_fields (file_lines (stdout_text r))
       \<and> (\<forall>l. length (spec_fields l) = Suc (count_list (trim (chop_terminator l)) TAB))"
  using tag_success_yielded [of self _ popen, OF assms]
  by (simp add: decode_line_spec spec_fields_def length_fields_of)

theorem tag_yields_fields_witness:
  "treetagger_bin ex_tagger = Some (py ''tree-tagger-english'')
   \<and> blank_popen (popen_args ex_tagger (py ''tree-tagger-english'')) = Inr blank_process
   \<and> communicate blank_process (normalize_input (RawText (py ''x''))) no_streams
       = Inr ([[120]], blank_process [120], no_streams)
   \<and> returncode (blank_process [120]) = 0
   \<and> yielded (fst (tag ex_tagger blank_popen (RawText (py ''x'')) no_streams))
       = [[py ''What'', py ''WP'', py ''What''], [[]], [py ''is'', py ''VBZ'']]"
proof -
  have h1: "treetagger_bin ex_tagger = Some (py ''tree-tagger-english'')"
    by (simp add: ex_tagger_def)
  have h2: "blank_popen (popen_args ex_tagger (py ''tree-tagger-english'')) = Inr blank_process"
    by (simp add: blank_popen_def)
  have h3: "communicate blank_process (normalize_input (RawText (py ''x''))) no_streams
       = Inr ([[120]], blank_process [120], no_streams)"
    by (simp add: communicate_def normalize_input_def py_def utf8_char_def)
  have h4: "returncode (blank_process [120]) = 0"
    by (simp add: blank_process_def)
  have h5: "map spec_fields (file_lines (stdout_text (blank_process [120])))
              = [[py ''What'', py ''WP'', py ''What''], [[]], [py ''is'', py ''VBZ'']]"
    by (simp add: blank_process_def py_def file_lines_def spec_fields_def
          chop_terminator_def trim_def isspace_def)
  from tag_yields_fields [of ex_tagger _ blank_popen, OF h1 h2 h3 h4] h1 h2 h3 h4 h5
  show ?thesis by simp
qed

text \<open>
  C10: no record yielded by \<open>tag\<close> is the empty sequence; after a successful call there
  is one record per output line, none skipped, and the record of a line that is empty
  after trimming is the one-field record of the empty string.
\<close>

theorem tag_records_nonempty:
  "[] \<notin> set (yielded (fst (tag self popen sentences fds)))
   \<and> (treetagger_bin self = Some bin \<and> popen (popen_args self bin) = Inr p
      \<and> communicate p (normalize_input sentences) fds = Inr (bs, r, fds')
      \<and> returncode r = 0 \<longrightarrow>
        length (yielded (fst (tag self popen sentences fds)))
          = length (file_lines (stdout_text r))
        \<and> (\<forall>i < length (file_lines (stdout_text r)).
              strip (file_lines (stdout_text r) ! i) = [] \<longrightarrow>
              yielded (fst (tag self popen sentences fds)) ! i = [[]]))"
proof (intro conjI impI)
  show "[] \<notin> set (yielded (fst (tag self popen sentences fds)))"
    by (auto simp add: tag_def split_fields fields_of_nonempty [THEN not_sym]
          split: option.splits sum.splits prod.splits)
next
  assume h: "treetagger_bin self = Some bin \<and> popen (popen_args self bin) = Inr p
      \<and> communicate p (normalize_input sentences) fds = Inr (bs, r, fds')
      \<and> returncode r = 0"
  then have y: "yielded (fst (tag self popen sentences fds)) =
         map (\<lambda>l. split TAB (strip l)) (file_lines (stdout_text r))"
    using tag_success_yielded [of self bin popen p sentences fds bs r fds'] by simp
  show "length (yielded (fst (tag self popen sentences fds)))
          = length (file_lines (stdout_text r))"
    by (simp add: y)
  show "\<forall>i < length (file_lines (stdout_text r)).
              strip (file_lines (stdout_text r) ! i) = [] \<longrightarrow>
              yielded (fst (tag self popen sentences fds)) ! i = [[]]"
    by (simp add: y split_def)
qed

theorem tag_records_nonempty_witness:
  "[] \<notin> set (yielded (fst (tag ex_tagger blank_popen (RawText (py ''x'')) no_streams)))
   \<and> (treetagger_bin ex_tagger = Some (py ''tree-tagger-english'')
      \<and> blank_popen (popen_args ex_tagger (py ''tree-tagger-english'')) = Inr blank_process
      \<and> communicate blank_process (normalize_input (RawText (py ''x''))) no_streams
          = Inr ([[120]], blank_process [120], no_streams)
      \<and> returncode (blank_process [120]) = 0)
   \<and> length (file_lines (stdout_text (blank_process [120]))) = 3
   \<and> strip (file_lines (stdout_text (blank_process [120])) ! 1) = []
   \<and> length (yielded (fst (tag ex_tagger blank_popen (RawText (py ''x'')) no_streams))) = 3
   \<and> yielded (fst (tag ex_tagger blank_popen (RawText (py ''x'')) no_streams)) ! 1 = [[]]"
proof -
  have h: "treetagger_bin ex_tagger = Some (py ''tree-tagger-english'')
      \<and> blank_popen (popen_args ex_tagger (py ''tree-tagger-english'')) = Inr blank_process
      \<and> communicate blank_process (normalize_input (RawText (py ''x''))) no_streams
          = Inr ([[120]], blank_process [120], no_streams)
      \<and> returncode (blank_process [120]) = 0"
    by (simp add: ex_tagger_def blank_popen_def communicate_def normalize_input_def py_def
          utf8_char_def blank_process_def)
  have l: "length (file_lines (stdout_text (blank_process [120]))) = 3"
    by (simp add: blank_process_def py_def file_lines_def)
  have s: "strip (file_lines (stdout_text (blank_process [120])) ! 1) = []"
    by (simp add: blank_process_def py_def file_lines_def strip_def lstrip_def rstrip_def
          isspace_def)
  have i: "(1::nat) < length (file_lines (stdout_text (blank_process [120])))"
    by (simp add: l)
  from tag_records_nonempty [of ex_tagger blank_popen "RawText (py ''x'')" no_streams
      "py ''tree-tagger-english''" blank_process "[[120]]" "blank_process [120]" no_streams]
    h l s i
  show ?thesis by auto
qed

text \<open>
  C8: every call of \<open>tag\<close> on an instance that has its binary gives \<open>Popen\<close> one argument
  vector: the executable alone when no abbreviation list was configured, the executable,
  \<open>-a\<close> and the abbreviation list when one was. An instance without a binary starts no
  process.
\<close>

theorem tag_argument_vector:
  "spawned (fst (tag self popen sentences fds)) =
     (case treetagger_bin self of
        None \<Rightarrow> []
      | Some bin \<Rightarrow>
          (case abbr_list self of
             None \<Rightarrow> [[bin]]
           | Some a \<Rightarrow> [[bin, py ''-a'', a]]))"
  by (simp add: tag_def popen_args_def
        split: option.splits sum.splits prod.splits)

section \<open>Construction\<close>

text \<open>
  C6: for a language outside the enumeration the constructor raises
  \<open>LookupError('Language not in language list!')\<close>, prints nothing and produces no
  instance; for a language of the enumeration it raises no \<open>LookupError\<close> at all, since
  the one \<open>find_binary\<close> may raise is caught.
\<close>

theorem init_language_check:
  "(language \<notin> set treetagger_languages \<longrightarrow>
      init env path_to_home language verbose abbreviation_list
        = ([], Inl (LookupError (py ''Language not in language list!''))))
   \<and> (language \<in> set treetagger_languages \<longrightarrow>
      (\<forall>m. snd (init env path_to_home language verbose abbreviation_list)
             \<noteq> Inl (LookupError m)))"
  by (auto simp add: init_def split: sum.splits pyerr.splits)

theorem init_language_check_witness:
  "py ''klingon'' \<notin> set treetagger_languages
   \<and> init env_found None (py ''klingon'') False None
       = ([], Inl (LookupError (py ''Language not in language list!'')))
   \<and> py ''english'' \<in> set treetagger_languages
   \<and> snd (init env_found None (py ''english'') False None)
       \<noteq> Inl (LookupError (py ''Language not in language list!''))"
proof -
  have k: "py ''klingon'' \<notin> set treetagger_languages"
    by (simp add: treetagger_languages_def py_def)
  have e: "py ''english'' \<in> set treetagger_languages"
    by (simp add: treetagger_languages_def py_def)
  from init_language_check [of "py ''klingon''" env_found None False None]
    init_language_check [of "py ''english''" env_found None False None] k e
  show ?thesis by blast
qed

text \<open>
  C7: when \<open>find_binary\<close> raises \<open>LookupError\<close> for a supported language, the
  constructor does not raise: it prints a warning and returns an instance that has no
  \<open>_treetagger_bin\<close> attribute. Every \<open>tag\<close> call on that instance fails, with
  \<open>AttributeError\<close>, before any process is started and before any record is yielded.
\<close>

theorem init_binary_not_found:
  assumes "language \<in> set treetagger_languages"
    and "locate env path_to_home language verbose = Inl (LookupError m)"
  shows "init env path_to_home language verbose abbreviation_list
           = ([PStr (py ''NLTK was unable to find the TreeTagger bin!'')],
              Inr \<lparr>abbr_list = abbreviation_list, treetagger_bin = None\<rparr>)
       \<and> (\<forall>popen sentences fds.
             raised (fst (tag \<lparr>abbr_list = abbreviation_list, treetagger_bin = None\<rparr>
                            popen sentences fds))
               = Some (AttributeError (py ''_treetagger_bin''))
             \<and> yielded (fst (tag \<lparr>abbr_list = abbreviation_list, treetagger_bin = None\<rparr>
                               popen sentences fds)) = []
             \<and> spawned (fst (tag \<lparr>abbr_list = abbreviation_list, treetagger_bin = None\<rparr>
                               popen sentences fds)) = [])"
  using assms by (simp add: init_def tag_def)

theorem init_binary_not_found_witness:
  "py ''english'' \<in> set treetagger_languages
   \<and> locate env_missing None (py ''english'') False = Inl (LookupError (py ''not found''))
   \<and> init env_missing None (py ''english'') False None
       = ([PStr (py ''NLTK was unable to find the TreeTagger bin!'')],
          Inr \<lparr>abbr_list = None, treetagger_bin = None\<rparr>)
   \<and> raised (fst (tag \<lparr>abbr_list = None, treetagger_bin = None\<rparr>
                    blank_popen (TokenList [py ''x'']) no_streams))
       = Some (AttributeError (py ''_treetagger_bin''))
   \<and> yielded (fst (tag \<lparr>abbr_list = None, treetagger_bin = None\<rparr>
                    blank_popen (TokenList [py ''x'']) no_streams)) = []"
proof -
  have e: "py ''english'' \<in> set treetagger_languages"
    by (simp add: treetagger_languages_def py_def)
  have l: "locate env_missing None (py ''english'') False
             = Inl (LookupError (py ''not found''))"
    by (simp add: locate_def env_missing_def)
  from init_binary_not_found [OF e l, of None] e l
  show ?thesis by simp
qed

section \<open>Calling \<open>tag\<close> twice\<close>

text \<open>
  The observation of a call depends on the streams only through the stream that is the
  input, if the input is one.
\<close>

lemma tag_cong_streams:
  assumes "\<forall>h. sentences = Readable h \<longrightarrow> fds1 h = fds2 h"
  shows "fst (tag self popen sentences fds1) = fst (tag self popen sentences fds2)"
  using assms
  by (cases sentences)
     (auto simp add: tag_def communicate_def normalize_input_def Let_def
        split: option.splits sum.splits)

text \<open>
  C9, as stated: two calls of \<open>tag\<close> on the same instance with the same input yield the
  same records, for every input. Not for a readable stream: the process of the first call
  reads the stream, and the second call, given the same stream, finds it at its end. Here
  the first call yields one record and the second none.
\<close>

theorem tag_twice_stream_counterexample:
  "yielded (fst (tag ex_tagger once_popen (Readable 0) one_stream))
     = [[py ''x'', py ''NN'', py ''x'']]
   \<and> raised (fst (tag ex_tagger once_popen (Readable 0) one_stream)) = None
   \<and> yielded (fst (tag ex_tagger once_popen (Readable 0)
                    (snd (tag ex_tagger once_popen (Readable 0) one_stream)))) = []
   \<and> raised (fst (tag ex_tagger once_popen (Readable 0)
                    (snd (tag ex_tagger once_popen (Readable 0) one_stream)))) = None"
  by (simp add: tag_def ex_tagger_def once_popen_def once_process_def one_stream_def
        communicate_def normalize_input_def popen_args_def py_def file_lines_def
        strip_def lstrip_def rstrip_def isspace_def split_def)

text \<open>
  C9, amended: two calls of \<open>tag\<close> in a row on the same instance with the same token
  list or the same string make the same observation, records and their order included;
  with the same readable stream they do when the stream holds for the second call the
  bytes it held for the first.
\<close>

theorem tag_twice_same_result:
  assumes "\<forall>h. sentences = Readable h \<longrightarrow> snd (tag self popen sentences fds) h = fds h"
  shows "fst (tag self popen sentences (snd (tag self popen sentences fds)))
           = fst (tag self popen sentences fds)"
  using assms by (rule tag_cong_streams)

theorem tag_twice_same_result_witness:
  "fst (tag ex_tagger once_popen (TokenList [py ''x''])
          (snd (tag ex_tagger once_popen (TokenList [py ''x'']) one_stream)))
     = fst (tag ex_tagger once_popen (TokenList [py ''x'']) one_stream)
   \<and> yielded (fst (tag ex_tagger once_popen (TokenList [py ''x'']) one_stream))
       = [[py ''x'', py ''NN'', py ''x'']]
   \<and> snd (tag ex_tagger once_popen (Readable 1) one_stream) 1 = one_stream 1
   \<and> fst (tag ex_tagger once_popen (Readable 1)
            (snd (tag ex_tagger once_popen (Readable 1) one_stream)))
       = fst (tag ex_tagger once_popen (Readable 1) one_stream)"
proof -
  have a: "\<forall>h. TokenList [py ''x''] = Readable h \<longrightarrow>
         snd (tag ex_tagger once_popen (TokenList [py ''x'']) one_stream) h = one_stream h"
    by simp
  have c: "snd (tag ex_tagger once_popen (Readable 1) one_stream) 1 = one_stream 1"
    by (simp add: tag_def ex_tagger_def once_popen_def once_process_def one_stream_def
          communicate_def normalize_input_def popen_args_def)
  then have b: "\<forall>h. Readable 1 = Readable h \<longrightarrow>
         snd (tag ex_tagger once_popen (Readable 1) one_stream) h = one_stream h"
    by simp
  have y: "yielded (fst (tag ex_tagger once_popen (TokenList [py ''x'']) one_stream))
       = [[py ''x'', py ''NN'', py ''x'']]"
    by (simp add: tag_def ex_tagger_def once_popen_def once_process_def
          communicate_def normalize_input_def popen_args_def py_def utf8_char_def
          file_lines_def strip_def lstrip_def rstrip_def isspace_def split_def)
  from tag_twice_same_result [OF a] tag_twice_same_result [OF b] c y
  show ?thesis by blast
qed

end
